theory Spec2Isabelle
  imports Main "HOL-Library.Sublist"
begin

section \<open>JavaScript values and string primitives\<close>

text \<open>
  A JavaScript string is modelled as a \<^typ>\<open>string\<close> whose characters are the code units
  U+0000 to U+00FF (Latin-1). The fruit vocabulary and the two marker tags live in that
  range, and the range is closed under \<open>toLowerCase\<close> and \<open>trim\<close>. Strings with code
  units beyond U+00FF are outside the model.
\<close>

definition is_upper :: "char \<Rightarrow> bool" where
  \<comment> \<open>the code units below U+0100 that \<open>toLowerCase\<close> changes: A-Z, and U+00C0 to U+00DE
      except the multiplication sign U+00D7\<close>
  "is_upper c =
     (let n = (of_char c :: nat)
      in (65 \<le> n \<and> n \<le> 90) \<or> (192 \<le> n \<and> n \<le> 222 \<and> n \<noteq> 215))"

fun add32 :: "char \<Rightarrow> char" where
  \<comment> \<open>sets the bit of weight 32: on the characters of \<open>is_upper\<close>, whose bit is clear, this adds 32\<close>
  "add32 (Char b0 b1 b2 b3 b4 b5 b6 b7) = Char b0 b1 b2 b3 b4 True b6 b7"

definition js_lower_char :: "char \<Rightarrow> char" where
  "js_lower_char c = (if is_upper c then add32 c else c)"

definition toLowerCase :: "string \<Rightarrow> string" where
  \<comment> \<open>\<open>String.prototype.toLowerCase\<close>\<close>
  "toLowerCase s = map js_lower_char s"

definition is_white_space :: "char \<Rightarrow> bool" where
  \<comment> \<open>white space and line terminators below U+0100: TAB, LF, VT, FF, CR, SP, NBSP\<close>
  "is_white_space c =
     (let n = (of_char c :: nat) in (9 \<le> n \<and> n \<le> 13) \<or> n = 32 \<or> n = 160)"

definition trim :: "string \<Rightarrow> string" where
  \<comment> \<open>\<open>String.prototype.trim\<close>\<close>
  "trim s = rev (dropWhile is_white_space (rev (dropWhile is_white_space s)))"

fun includes_str :: "string \<Rightarrow> string \<Rightarrow> bool" where
  \<comment> \<open>\<open>s.includes(t)\<close>: \<open>t\<close> occurs in \<open>s\<close> at some position\<close>
  "includes_str [] t = (t = [])"
| "includes_str (c # s) t = (prefix t (c # s) \<or> includes_str s t)"

fun split :: "char \<Rightarrow> string \<Rightarrow> string list" where
  \<comment> \<open>\<open>s.split(sep)\<close> for a separator of one character\<close>
  "split sep [] = [[]]"
| "split sep (c # cs) =
     (if c = sep then [] # split sep cs
      else (case split sep cs of [] \<Rightarrow> [[c]] | w # ws \<Rightarrow> (c # w) # ws))"

text \<open>
  The values the \<open>quantidade\<close> property of a marker takes in this program: a string, or
  a number. The numbers that occur are the doubles with an integer value (\<open>Num n\<close>, with
  \<open>NegZero\<close> for \<open>-0\<close>), the two infinities and \<open>NaN\<close>.
\<close>

datatype jsval = Num int | NegZero | Infinity | NegInfinity | NaN | Str string

fun is_integer :: "jsval \<Rightarrow> bool" where
  \<comment> \<open>a number with an integer value, as \<open>Number.isInteger\<close> tells\<close>
  "is_integer (Num n) = True"
| "is_integer NegZero = True"
| "is_integer Infinity = False"
| "is_integer NegInfinity = False"
| "is_integer NaN = False"
| "is_integer (Str s) = False"

fun bitlen :: "nat \<Rightarrow> nat" where
  \<comment> \<open>the number of binary digits\<close>
  "bitlen n = (if n = 0 then 0 else Suc (bitlen (n div 2)))"

declare bitlen.simps [simp del]

definition round_binary64 :: "nat \<Rightarrow> nat" where
  \<comment> \<open>a natural number rounded to 53 significant binary digits, ties to the even
      significand: the double nearest to it, when that is finite\<close>
  "round_binary64 n =
     (if n < 2 ^ 53 then n
      else (let e = bitlen n - 53; q = n div 2 ^ e; r = n mod 2 ^ e; h = 2 ^ (e - 1)
            in (if h < r \<or> (r = h \<and> odd q) then q + 1 else q) * 2 ^ e))"

definition to_Number :: "int \<Rightarrow> nat \<Rightarrow> jsval" where
  \<comment> \<open>the Number value of \<open>sign * n\<close>, for \<open>sign\<close> 1 or -1: zero keeps the sign, a
      magnitude of \<open>2^1024 - 2^970\<close> or more rounds to an infinity\<close>
  "to_Number sign n =
     (if n = 0 then (if sign < 0 then NegZero else Num 0)
      else if 2 ^ 1024 - 2 ^ 970 \<le> n then (if sign < 0 then NegInfinity else Infinity)
      else Num (sign * int (round_binary64 n)))"

definition is_digit :: "char \<Rightarrow> bool" where
  "is_digit c = (let n = (of_char c :: nat) in 48 \<le> n \<and> n \<le> 57)"

definition digits_value :: "string \<Rightarrow> nat" where
  \<comment> \<open>the value of a run of decimal digits\<close>
  "digits_value ds = foldl (\<lambda>a c. 10 * a + (of_char c - 48)) 0 ds"

definition sign_of :: "string \<Rightarrow> int" where
  "sign_of s = (case s of [] \<Rightarrow> 1 | c # r \<Rightarrow> if c = CHR ''-'' then - 1 else 1)"

definition drop_sign :: "string \<Rightarrow> string" where
  "drop_sign s = (case s of [] \<Rightarrow> [] | c # r \<Rightarrow> if c = CHR ''-'' \<or> c = CHR ''+'' then r else s)"

definition digit_run :: "string \<Rightarrow> string" where
  \<comment> \<open>the decimal digits that \<open>parseInt\<close> reads\<close>
  "digit_run input = takeWhile is_digit (drop_sign (dropWhile is_white_space input))"

definition parseInt :: "string \<Rightarrow> jsval" where
  \<comment> \<open>\<open>parseInt(input, 10)\<close>: leading white space is skipped, one sign is read, then the longest
      run of decimal digits; no digit gives \<open>NaN\<close>, and otherwise the result is the Number
      value of the signed value of the run. (For a run of more than 20 digits the standard
      also lets an implementation read the digits after the 20th as zeros; the model
      rounds the exact value.)\<close>
  "parseInt input =
     (let s = dropWhile is_white_space input;
          z = takeWhile is_digit (drop_sign s)
      in if z = [] then NaN else to_Number (sign_of s) (digits_value z))"

datatype abort =
    TypeError       \<comment> \<open>a JavaScript \<open>TypeError\<close> is thrown\<close>
  | Not_rendered    \<comment> \<open>the control an event presses is not on the screen\<close>


section \<open>Data model\<close>

text \<open>
  The number type \<open>'n\<close> of the coordinates is a parameter: no operation of the program
  computes with a latitude or a longitude. \<open>None\<close> is JavaScript's \<open>null\<close>.
\<close>

record 'n coords =
  lat :: 'n
  lng :: 'n

record 'n marker =
  m_type :: string
  m_coords :: "'n coords option"
  m_frutas :: "string list"
  m_quantidade :: jsval

definition valid_type :: "string \<Rightarrow> bool" where
  "valid_type t = (t = ''mercado'' \<or> t = ''produtor'')"

text \<open>
  A JavaScript array of markers is a list of slots. An index of the array holds a marker,
  or the value \<open>undefined\<close>, or it is a hole (the array has no property for the index).
  A marker list is an array whose every slot holds a marker.
\<close>

datatype 'n slot = Hole | Undefined | Marker "'n marker"

definition spread :: "'n slot list \<Rightarrow> 'n slot list" where
  \<comment> \<open>\<open>[...xs]\<close>: the copy reads every index, and a hole reads as \<open>undefined\<close>\<close>
  "spread xs = map (\<lambda>x. case x of Hole \<Rightarrow> Undefined | Undefined \<Rightarrow> Undefined | Marker m \<Rightarrow> Marker m) xs"

definition array_assign :: "'n slot list \<Rightarrow> nat \<Rightarrow> 'n slot \<Rightarrow> 'n slot list" where
  \<comment> \<open>\<open>xs[i] = v\<close>: inside the array the slot is replaced; at the length the array grows by
      one slot; beyond it the array grows to length \<open>i + 1\<close> and the slots between are holes\<close>
  "array_assign xs i v =
     (if i < length xs then xs[i := v] else xs @ replicate (i - length xs) Hole @ [v])"

definition filter_indexed :: "('n slot \<Rightarrow> nat \<Rightarrow> bool) \<Rightarrow> 'n slot list \<Rightarrow> 'n slot list" where
  \<comment> \<open>\<open>xs.filter((x, i) => p(x, i))\<close>: the callback is not called on a hole, and a hole is
      not in the result\<close>
  "filter_indexed p xs =
     map fst (filter (\<lambda>(x, i). x \<noteq> Hole \<and> p x i) (zip xs [0..<length xs]))"


section \<open>Marker Form (Formulario)\<close>

definition frutasDisponiveis :: "string list" where
  "frutasDisponiveis =
     [''Ma'' @ [CHR 0xE7, CHR 0xE3], ''Banana'', ''Laranja'', ''Manga'', ''Abacaxi'',
      ''Uva'', ''Melancia'', ''Pera'', ''Mam'' @ [CHR 0xE3, CHR ''o''],
      ''Lim'' @ [CHR 0xE3, CHR ''o''], ''Kiwi'']"

text \<open>The state of the form: its four \<open>useState\<close> cells.\<close>

record form_state =
  quantidade :: string
  tipo :: string
  busca :: string
  selecionadas :: "string list"

text \<open>The object the form hands to \<open>onSave\<close>.\<close>

record 'n form_data =
  d_tipo :: string
  d_coords :: "'n coords option"
  d_frutas :: "string list"
  d_quantidade :: string

definition mount_form :: "string \<Rightarrow> 'n coords option \<Rightarrow> string list option \<Rightarrow> form_state" where
  \<comment> \<open>the initial values of the cells, followed by the effect on \<open>[markerType, frutas]\<close>\<close>
  "mount_form markerType_prop coords_prop frutas_prop =
     \<lparr>quantidade = [], tipo = markerType_prop, busca = [],
      selecionadas = (case coords_prop of
                        None \<Rightarrow> []
                      | Some c \<Rightarrow> (case frutas_prop of None \<Rightarrow> [] | Some fs \<Rightarrow> fs))\<rparr>"

definition frutasFiltradas :: "form_state \<Rightarrow> string list" where
  "frutasFiltradas st =
     filter (\<lambda>f. includes_str (toLowerCase f) (toLowerCase (busca st)) \<and> f \<notin> set (selecionadas st))
       frutasDisponiveis"

definition sugestoes :: "form_state \<Rightarrow> string list" where
  \<comment> \<open>the suggestion list on the screen: rendered when \<open>busca.length > 0\<close> and
      \<open>frutasFiltradas.length > 0\<close>\<close>
  "sugestoes st = (if busca st \<noteq> [] \<and> frutasFiltradas st \<noteq> [] then frutasFiltradas st else [])"

definition adicionarFruta :: "string \<Rightarrow> form_state \<Rightarrow> form_state" where
  "adicionarFruta fruta st = st\<lparr>selecionadas := selecionadas st @ [fruta], busca := []\<rparr>"

definition removerFruta :: "string \<Rightarrow> form_state \<Rightarrow> form_state" where
  "removerFruta fruta st = st\<lparr>selecionadas := filter (\<lambda>f. f \<noteq> fruta) (selecionadas st)\<rparr>"

definition salvar_data :: "'n coords option \<Rightarrow> form_state \<Rightarrow> 'n form_data" where
  \<comment> \<open>the argument of \<open>onSave\<close> in \<open>salvar\<close>\<close>
  "salvar_data coords_prop st =
     \<lparr>d_tipo = tipo st, d_coords = coords_prop, d_frutas = selecionadas st,
      d_quantidade = quantidade st\<rparr>"


section \<open>Map View (MapComponent), web and native\<close>

text \<open>
  The state of the component: the shared array of the Marker Store and the component's
  own cells. The native component also declares a cell \<open>quantidade\<close> that it never reads
  or writes; it is left out.
\<close>

record 'n map_state =
  markers :: "'n slot list"
  showForm :: bool
  markerType :: string
  newMarkerCoords :: "'n coords option"
  selectedMarkerIndex :: "nat option"
  frutas :: "string list option"

datatype platform = Web | Native

definition saved_marker :: "'n form_data \<Rightarrow> 'n marker" where
  \<comment> \<open>the object literal both branches of \<open>handleSave\<close> build\<close>
  "saved_marker d =
     \<lparr>m_type = d_tipo d, m_coords = d_coords d, m_frutas = d_frutas d,
      m_quantidade = parseInt (d_quantidade d)\<rparr>"

definition handleSave_web :: "'n form_data \<Rightarrow> 'n map_state \<Rightarrow> 'n map_state" where
  "handleSave_web d s =
     (case selectedMarkerIndex s of
        Some i \<Rightarrow>
          (let updatedMarkers = array_assign (spread (markers s)) i (Marker (saved_marker d))
           in s\<lparr>markers := updatedMarkers, selectedMarkerIndex := None, showForm := False\<rparr>)
      | None \<Rightarrow>
          s\<lparr>markers := spread (markers s) @ [Marker (saved_marker d)],
            selectedMarkerIndex := None, showForm := False\<rparr>)"

definition handleSave_native :: "'n form_data \<Rightarrow> 'n map_state \<Rightarrow> 'n map_state" where
  \<comment> \<open>the update branch assigns into the local copy \<open>updatedMarkers\<close> and never calls
      \<open>setMarkers\<close> with it\<close>
  "handleSave_native d s =
     (case selectedMarkerIndex s of
        Some i \<Rightarrow>
          (let updatedMarkers = array_assign (spread (markers s)) i (Marker (saved_marker d))
           in s\<lparr>selectedMarkerIndex := None, showForm := False\<rparr>)
      | None \<Rightarrow>
          s\<lparr>markers := spread (markers s) @ [Marker (saved_marker d)],
            selectedMarkerIndex := None, showForm := False\<rparr>)"

definition handleDelete_web :: "'n map_state \<Rightarrow> 'n map_state" where
  "handleDelete_web s =
     (case selectedMarkerIndex s of
        Some i \<Rightarrow>
          s\<lparr>markers := filter_indexed (\<lambda>_ j. j \<noteq> i) (markers s), selectedMarkerIndex := None,
            showForm := False\<rparr>
      | None \<Rightarrow> s\<lparr>showForm := False\<rparr>)"

definition handleDelete_native :: "'n map_state \<Rightarrow> 'n map_state" where
  "handleDelete_native s =
     (case selectedMarkerIndex s of
        Some i \<Rightarrow>
          s\<lparr>markers := filter_indexed (\<lambda>_ j. j \<noteq> i) (markers s), selectedMarkerIndex := None,
            showForm := False\<rparr>
      | None \<Rightarrow> s\<lparr>showForm := False\<rparr>)"

definition onClose_web :: "'n map_state \<Rightarrow> 'n map_state" where
  "onClose_web s = s\<lparr>showForm := False\<rparr>"

definition onClose_native :: "'n map_state \<Rightarrow> 'n map_state" where
  "onClose_native s = s\<lparr>showForm := False, selectedMarkerIndex := None\<rparr>"

text \<open>The platform dispatch of \<open>MapComponent\<close>.\<close>

fun handleSave :: "platform \<Rightarrow> 'n form_data \<Rightarrow> 'n map_state \<Rightarrow> 'n map_state" where
  "handleSave Web = handleSave_web"
| "handleSave Native = handleSave_native"

fun handleDelete :: "platform \<Rightarrow> 'n map_state \<Rightarrow> 'n map_state" where
  "handleDelete Web = handleDelete_web"
| "handleDelete Native = handleDelete_native"

fun onClose :: "platform \<Rightarrow> 'n map_state \<Rightarrow> 'n map_state" where
  "onClose Web = onClose_web"
| "onClose Native = onClose_native"


section \<open>CSV Importer\<close>

text \<open>
  A row of the parsed file (\<open>header: true\<close>): the cells keyed by column name, every cell a
  string. A row shorter than the header, or a file without the column, has no entry for
  the key: the property reads as \<open>undefined\<close>. \<open>parseFloat\<close> is total and a parameter.
\<close>

type_synonym row = "string \<rightharpoonup> string"

definition row_to_marker :: "(string option \<Rightarrow> 'n) \<Rightarrow> row \<Rightarrow> abort + 'n marker" where
  "row_to_marker parseFloat r =
     (let type_v = (case r ''tipo'' of
                      None \<Rightarrow> ''mercado''
                    | Some t \<Rightarrow> (let v = toLowerCase (trim t) in if v = [] then ''mercado'' else v));
          coords_v = \<lparr>lat = parseFloat (r ''lat''), lng = parseFloat (r ''long'')\<rparr>;
          frutas_v = (case r ''produtos'' of
                        None \<Rightarrow> []
                      | Some p \<Rightarrow> if p = [] then [] else map trim (split CHR '','' p))
      in case r ''quantidade'' of
           None \<Rightarrow> Inl TypeError
         | Some q \<Rightarrow>
             Inr \<lparr>m_type = type_v, m_coords = Some coords_v, m_frutas = frutas_v,
                  m_quantidade = (let v = toLowerCase (trim q) in if v = [] then Num 10 else Str v)\<rparr>)"

fun map_rows :: "('a \<Rightarrow> abort + 'b) \<Rightarrow> 'a list \<Rightarrow> abort + 'b list" where
  \<comment> \<open>\<open>Array.prototype.map\<close> with a callback that may throw\<close>
  "map_rows f [] = Inr []"
| "map_rows f (x # xs) =
     (case f x of
        Inl e \<Rightarrow> Inl e
      | Inr y \<Rightarrow> (case map_rows f xs of Inl e \<Rightarrow> Inl e | Inr ys \<Rightarrow> Inr (y # ys)))"

definition complete :: "(string option \<Rightarrow> 'n) \<Rightarrow> row list \<Rightarrow> abort + 'n marker list" where
  \<comment> \<open>the \<open>complete\<close> callback: \<open>Inr ms\<close> is the call \<open>onImport(ms)\<close>\<close>
  "complete parseFloat data = map_rows (row_to_marker parseFloat) data"


section \<open>Submission Client\<close>

record request =
  url :: string
  req_method :: string  \<comment> \<open>the property \<open>method\<close> of the request\<close>
  headers :: "(string \<times> string) list"
  body :: string

definition linkServer :: string where
  "linkServer = ''http://127.0.0.1:8000''"

definition fetch :: "(request list \<Rightarrow> request \<Rightarrow> 'r) \<Rightarrow> request \<Rightarrow> request list \<Rightarrow> 'r \<times> request list" where
  \<comment> \<open>the network: the list of the requests issued so far; the server answers (or the
      request fails) as \<open>server\<close> says; the request is appended to the list\<close>
  "fetch server rq net = (server net rq, net @ [rq])"

definition submit ::
  "(request list \<Rightarrow> request \<Rightarrow> 'r) \<Rightarrow> ('n marker list \<Rightarrow> string) \<Rightarrow> 'n marker list \<Rightarrow>
     request list \<Rightarrow> 'r \<times> request list" where
  \<comment> \<open>\<open>stringify\<close> is \<open>JSON.stringify\<close>\<close>
  "submit server stringify ms net =
     fetch server
       \<lparr>url = linkServer @ ''/find-optimal-location/'', req_method = ''POST'',
        headers = [(''Content-Type'', ''application/json'')], body = stringify ms\<rparr>
       net"


section \<open>The screen: Map View and Marker Form together\<close>

record 'n app =
  mapc :: "'n map_state"
  form :: form_state

datatype 'n event =
    MapPress "'n coords"
  | MarkerPress nat
  | PressMercado
  | PressProdutor
  | ChangeQuantidade string
  | ChangeBusca string
  | PressSugestao string
  | PressRemover string
  | PressSalvar
  | PressCancelar
  | PressExcluir
  | ImportCSV "'n marker list"

definition open_form :: "'n map_state \<Rightarrow> 'n app" where
  \<comment> \<open>the form is rendered only while \<open>showForm\<close> holds, so showing it mounts it\<close>
  "open_form s =
     \<lparr>mapc = s\<lparr>showForm := True\<rparr>,
      form = mount_form (markerType s) (newMarkerCoords s) (frutas s)\<rparr>"

definition initial_app :: "'n app" where
  "initial_app =
     \<lparr>mapc = \<lparr>markers = [], showForm = False, markerType = ''mercado'', newMarkerCoords = None,
              selectedMarkerIndex = None, frutas = None\<rparr>,
      form = mount_form ''mercado'' (None :: 'n coords option) None\<rparr>"

fun on_event :: "platform \<Rightarrow> 'n event \<Rightarrow> 'n app \<Rightarrow> abort + 'n app" where
  \<comment> \<open>the handler of an event. A press reaches the map only while the form does not
      cover it, and the form only while it is shown. On the native map the pressed
      coordinate has the properties \<open>latitude\<close> and \<open>longitude\<close>, and the form that opens
      throws on \<open>coords?.lat.toFixed(6)\<close>.\<close>
  "on_event p (MapPress c) a =
     (if showForm (mapc a) then Inl Not_rendered
      else (case p of
              Web \<Rightarrow>
                Inr (open_form ((mapc a)\<lparr>selectedMarkerIndex := None, frutas := None,
                       newMarkerCoords := Some c, markerType := ''mercado''\<rparr>))
            | Native \<Rightarrow> Inl TypeError))"
| "on_event p (MarkerPress i) a =
     (if showForm (mapc a) \<or> \<not> i < length (markers (mapc a)) then Inl Not_rendered
      else (case markers (mapc a) ! i of
              Marker m \<Rightarrow>
                Inr (open_form ((mapc a)\<lparr>selectedMarkerIndex := Some i,
                       newMarkerCoords := m_coords m, frutas := Some (m_frutas m),
                       markerType := m_type m\<rparr>))
            | Hole \<Rightarrow> Inl Not_rendered
            | Undefined \<Rightarrow> Inl Not_rendered))"
| "on_event p PressMercado a =
     (if showForm (mapc a) then Inr (a\<lparr>form := (form a)\<lparr>tipo := ''mercado''\<rparr>\<rparr>)
      else Inl Not_rendered)"
| "on_event p PressProdutor a =
     (if showForm (mapc a) then Inr (a\<lparr>form := (form a)\<lparr>tipo := ''produtor''\<rparr>\<rparr>)
      else Inl Not_rendered)"
| "on_event p (ChangeQuantidade t) a =
     (if showForm (mapc a) then Inr (a\<lparr>form := (form a)\<lparr>quantidade := t\<rparr>\<rparr>)
      else Inl Not_rendered)"
| "on_event p (ChangeBusca t) a =
     (if showForm (mapc a) then Inr (a\<lparr>form := (form a)\<lparr>busca := t\<rparr>\<rparr>)
      else Inl Not_rendered)"
| "on_event p (PressSugestao f) a =
     (if showForm (mapc a) \<and> f \<in> set (sugestoes (form a))
      then Inr (a\<lparr>form := adicionarFruta f (form a)\<rparr>)
      else Inl Not_rendered)"
| "on_event p (PressRemover f) a =
     (if showForm (mapc a) \<and> f \<in> set (selecionadas (form a))
      then Inr (a\<lparr>form := removerFruta f (form a)\<rparr>)
      else Inl Not_rendered)"
| "on_event p PressSalvar a =
     (if showForm (mapc a)
      then Inr (a\<lparr>mapc := onClose p
                  (handleSave p (salvar_data (newMarkerCoords (mapc a)) (form a)) (mapc a))\<rparr>)
      else Inl Not_rendered)"
| "on_event p PressCancelar a =
     (if showForm (mapc a) then Inr (a\<lparr>mapc := onClose p (mapc a)\<rparr>) else Inl Not_rendered)"
| "on_event p PressExcluir a =
     (if showForm (mapc a) then Inr (a\<lparr>mapc := onClose p (handleDelete p (mapc a))\<rparr>)
      else Inl Not_rendered)"
| "on_event p (ImportCSV ms) a = Inr (a\<lparr>mapc := (mapc a)\<lparr>markers := map Marker ms\<rparr>\<rparr>)"

fun slot_renders :: "platform \<Rightarrow> 'n slot \<Rightarrow> bool" where
  \<comment> \<open>\<open>markers.map((m, i) => ...)\<close> in the render: a hole is skipped; on \<open>undefined\<close> reading
      \<open>m.coords\<close> throws; the web component also reads \<open>m.coords.lat\<close>, which throws when
      \<open>coords\<close> is \<open>null\<close>\<close>
  "slot_renders p Hole = True"
| "slot_renders p Undefined = False"
| "slot_renders Web (Marker m) = (m_coords m \<noteq> None)"
| "slot_renders Native (Marker m) = True"

definition render :: "platform \<Rightarrow> 'n app \<Rightarrow> abort + 'n app" where
  \<comment> \<open>the render that follows a change of state; an error thrown in it takes the screen
      down\<close>
  "render p a =
     (if list_all (slot_renders p) (markers (mapc a)) then Inr a else Inl TypeError)"

definition step :: "platform \<Rightarrow> 'n event \<Rightarrow> 'n app \<Rightarrow> abort + 'n app" where
  "step p e a = (case on_event p e a of Inl x \<Rightarrow> Inl x | Inr a' \<Rightarrow> render p a')"

fun run :: "platform \<Rightarrow> 'n event list \<Rightarrow> 'n app \<Rightarrow> abort + 'n app" where
  "run p [] a = Inr a"
| "run p (e # es) a = (case step p e a of Inl x \<Rightarrow> Inl x | Inr a' \<Rightarrow> run p es a')"

fun trace :: "platform \<Rightarrow> 'n event list \<Rightarrow> 'n app \<Rightarrow> 'n app list" where
  \<comment> \<open>the states the screen goes through, up to the event that stops it; a state whose
      render throws is the last one\<close>
  "trace p [] a = [a]"
| "trace p (e # es) a =
     a # (case on_event p e a of
            Inl x \<Rightarrow> []
          | Inr a' \<Rightarrow> (case render p a' of Inl x \<Rightarrow> [a'] | Inr a'' \<Rightarrow> trace p es a''))"

definition store_ok :: "'n marker list \<Rightarrow> bool" where
  "store_ok ms = list_all (\<lambda>m. valid_type (m_type m)) ms"

fun slot_ok :: "'n slot \<Rightarrow> bool" where
  "slot_ok (Marker m) = valid_type (m_type m)"
| "slot_ok Hole = True"
| "slot_ok Undefined = True"

definition app_ok :: "'n app \<Rightarrow> bool" where
  "app_ok a =
     (list_all slot_ok (markers (mapc a)) \<and> valid_type (markerType (mapc a)) \<and>
      valid_type (tipo (form a)))"

fun typed_event :: "'n event \<Rightarrow> bool" where
  \<comment> \<open>every event of the form and the map; an imported file only if its markers carry
      the two tags\<close>
  "typed_event (ImportCSV ms) = store_ok ms"
| "typed_event e = True"


section \<open>Sample data\<close>

text \<open>Three markers and a Map View showing the form, used to run the operations.\<close>

definition sample_markers :: "int marker list" where
  "sample_markers =
     [\<lparr>m_type = ''mercado'', m_coords = Some \<lparr>lat = 1, lng = 2\<rparr>, m_frutas = [''Uva''],
       m_quantidade = Num 5\<rparr>,
      \<lparr>m_type = ''produtor'', m_coords = Some \<lparr>lat = 3, lng = 4\<rparr>, m_frutas = [''Kiwi''],
       m_quantidade = Num 7\<rparr>,
      \<lparr>m_type = ''mercado'', m_coords = Some \<lparr>lat = 5, lng = 6\<rparr>, m_frutas = [],
       m_quantidade = NaN\<rparr>]"

definition sample_state :: "nat option \<Rightarrow> int map_state" where
  "sample_state sel =
     \<lparr>markers = map Marker sample_markers, showForm = True, markerType = ''produtor'',
      newMarkerCoords = Some \<lparr>lat = 3, lng = 4\<rparr>, selectedMarkerIndex = sel,
      frutas = Some [''Kiwi'']\<rparr>"

definition sample_data :: "int form_data" where
  "sample_data =
     \<lparr>d_tipo = ''produtor'', d_coords = Some \<lparr>lat = 3, lng = 4\<rparr>,
      d_frutas = [''Kiwi'', ''Pera''], d_quantidade = ''12''\<rparr>"

definition sample_row :: "string \<Rightarrow> row" where
  "sample_row t =
     map_of [(''tipo'', t), (''lat'', ''-25.4''), (''long'', ''-49.2''),
             (''produtos'', ''Uva, Kiwi''), (''quantidade'', '' 20'')]"

definition short_row :: row where
  \<comment> \<open>a row of a file without the column \<open>quantidade\<close>, or a line cut short before it\<close>
  "short_row =
     map_of [(''tipo'', ''produtor''), (''lat'', ''-24.9''), (''long'', ''-51.1''),
             (''produtos'', ''Banana'')]"

definition sample_parseFloat :: "string option \<Rightarrow> int" where
  "sample_parseFloat x = 0"

definition sample_form :: "string \<Rightarrow> string list \<Rightarrow> form_state" where
  "sample_form b sel = \<lparr>quantidade = ''3'', tipo = ''mercado'', busca = b, selecionadas = sel\<rparr>"


section \<open>Lists and strings: auxiliary facts\<close>

text \<open>On the characters it changes, \<open>toLowerCase\<close> adds 32 to the code unit.\<close>

lemma add32_adds: "is_upper c \<Longrightarrow> (of_char (add32 c) :: nat) = of_char c + 32"
proof (cases c)
  case (Char b0 b1 b2 b3 b4 b5 b6 b7)
  assume u: "is_upper c"
  have "\<not> b5"
  proof
    assume "b5"
    with u Char show False
      by (cases b6; cases b7; cases b4; cases b3; cases b2; cases b1; cases b0)
         (simp_all add: is_upper_def)
  qed
  with Char show ?thesis by simp
qed

lemma js_lower_char_code:
  "(of_char (js_lower_char c) :: nat) = (if is_upper c then of_char c + 32 else of_char c)"
  by (simp add: js_lower_char_def add32_adds)

text \<open>The recursive search of \<open>includes\<close> finds exactly the contiguous occurrences.\<close>

lemma includes_str_sublist: "includes_str s t \<longleftrightarrow> sublist t s"
  by (induction s) (simp_all add: sublist_Cons_right)

text \<open>
  Filtering on the index alone removes one position and the holes, and keeps the order of
  the rest. On a marker list, which has no hole, it removes the one position.
\<close>

lemma filter_zip_upt_all:
  "\<forall>j \<ge> k. P j \<Longrightarrow>
     map fst (filter (\<lambda>(x, j). x \<noteq> Hole \<and> P j) (zip xs [k..<k + length xs]))
       = filter (\<lambda>x. x \<noteq> Hole) xs"
proof (induction xs arbitrary: k)
  case Nil
  then show ?case by simp
next
  case (Cons x xs)
  have u: "[k..<k + length (x # xs)] = k # [Suc k..<Suc k + length xs]"
    by (simp add: upt_rec)
  from Cons.prems have "\<forall>j \<ge> Suc k. P j" by simp
  from Cons.IH [OF this] Cons.prems show ?case
    unfolding u by simp
qed

lemma filter_zip_upt_neq:
  "map fst (filter (\<lambda>(x, j). x \<noteq> Hole \<and> j \<noteq> i + k) (zip xs [k..<k + length xs]))
     = filter (\<lambda>x. x \<noteq> Hole) (take i xs @ drop (Suc i) xs)"
proof (induction xs arbitrary: i k)
  case Nil
  then show ?case by simp
next
  case (Cons x xs)
  have u: "[k..<k + length (x # xs)] = k # [Suc k..<Suc k + length xs]"
    by (simp add: upt_rec)
  show ?case
  proof (cases i)
    case 0
    have "map fst (filter (\<lambda>(x, j). x \<noteq> Hole \<and> j \<noteq> k) (zip xs [Suc k..<Suc k + length xs]))
          = filter (\<lambda>x. x \<noteq> Hole) xs"
      by (rule filter_zip_upt_all) simp
    with 0 show ?thesis unfolding u by simp
  next
    case (Suc i')
    have "map fst (filter (\<lambda>(x, j). x \<noteq> Hole \<and> j \<noteq> i' + Suc k)
                     (zip xs [Suc k..<Suc k + length xs]))
          = filter (\<lambda>x. x \<noteq> Hole) (take i' xs @ drop (Suc i') xs)"
      by (rule Cons.IH)
    with Suc show ?thesis unfolding u by simp
  qed
qed

lemma filter_indexed_remove:
  "filter_indexed (\<lambda>_ j. j \<noteq> i) xs = filter (\<lambda>x. x \<noteq> Hole) (take i xs @ drop (Suc i) xs)"
  using filter_zip_upt_neq [of i 0 xs] by (simp add: filter_indexed_def)

lemma filter_holes_dense: "filter (\<lambda>x. x \<noteq> Hole) (map Marker ms) = map Marker ms"
  by (induction ms) simp_all

lemma filter_indexed_remove_dense:
  "filter_indexed (\<lambda>_ j. j \<noteq> i) (map Marker ms) = map Marker (take i ms @ drop (Suc i) ms)"
proof -
  have "take i (map Marker ms) @ drop (Suc i) (map Marker ms)
        = map Marker (take i ms @ drop (Suc i) ms)"
    by (simp add: take_map drop_map)
  then show ?thesis
    by (simp only: filter_indexed_remove filter_holes_dense)
qed

text \<open>Copying and assigning: which slots the new array has.\<close>

lemma spread_dense: "spread (map Marker ms) = map Marker ms"
  by (simp add: spread_def)

lemma Marker_in_spread: "Marker m \<in> set (spread xs) \<longleftrightarrow> Marker m \<in> set xs"
  by (induction xs) (auto simp add: spread_def split: slot.splits)

lemma set_array_assign: "set (array_assign xs i v) \<subseteq> insert v (insert Hole (set xs))"
  using set_update_subset_insert [of xs i v] by (auto simp add: array_assign_def)

text \<open>
  The value of a digit run: its bounds by the number of digits. A run of up to 308 digits
  is below \<open>2^1024 - 2^970\<close>, where doubles end; a run of 310 digits or more that does not
  start with 0 is beyond it.
\<close>

lemma foldl_digits:
  "foldl (\<lambda>a c. 10 * a + (of_char c - 48)) a z
     = a * 10 ^ length z + foldl (\<lambda>a c. 10 * a + (of_char c - 48)) (0::nat) z"
proof (induction z arbitrary: a)
  case Nil
  then show ?case by simp
next
  case (Cons c z)
  have "foldl (\<lambda>a c. 10 * a + (of_char c - 48)) (10 * a + (of_char c - 48)) z
        = (10 * a + (of_char c - 48)) * 10 ^ length z
          + foldl (\<lambda>a c. 10 * a + (of_char c - 48)) (0::nat) z"
    by (rule Cons.IH)
  moreover have "foldl (\<lambda>a c. 10 * a + (of_char c - 48)) (of_char c - 48) z
        = (of_char c - 48) * 10 ^ length z
          + foldl (\<lambda>a c. 10 * a + (of_char c - 48)) (0::nat) z"
    by (rule Cons.IH)
  ultimately show ?case by (simp add: algebra_simps)
qed

lemma digits_value_Cons:
  "digits_value (c # z) = (of_char c - 48) * 10 ^ length z + digits_value z"
  using foldl_digits [of "of_char c - 48" z] by (simp add: digits_value_def)

lemma digits_value_less: "list_all is_digit z \<Longrightarrow> digits_value z < 10 ^ length z"
proof (induction z)
  case Nil
  then show ?case by (simp add: digits_value_def)
next
  case (Cons c z)
  let ?d = "(of_char c :: nat) - 48" and ?p = "(10::nat) ^ length z"
  from Cons have d: "?d \<le> 9" and IH: "digits_value z < ?p"
    by (auto simp add: is_digit_def Let_def)
  from d have "?d * ?p \<le> 9 * ?p" by (rule mult_le_mono1)
  then have "?d * ?p + digits_value z < 9 * ?p + ?p"
    using IH by (rule add_le_less_mono)
  also have "9 * ?p + ?p = 10 ^ length (c # z)" by simp
  finally show ?case by (simp only: digits_value_Cons)
qed

lemma digits_value_ge:
  assumes "is_digit c" and "c \<noteq> CHR ''0''"
  shows "10 ^ length z \<le> digits_value (c # z)"
proof -
  let ?d = "(of_char c :: nat) - 48" and ?p = "(10::nat) ^ length z"
  have "(of_char c :: nat) \<noteq> 48"
  proof
    assume "(of_char c :: nat) = 48"
    then have "(of_char c :: nat) = of_char CHR ''0''" by simp
    then have "c = CHR ''0''" by (simp only: of_char_eq_iff)
    with assms(2) show False by simp
  qed
  with assms(1) have "1 \<le> ?d" by (auto simp add: is_digit_def Let_def)
  then have "1 * ?p \<le> ?d * ?p" by (rule mult_le_mono1)
  then have "?p \<le> ?d * ?p" by simp
  then have "?p \<le> ?d * ?p + digits_value z" by (rule trans_le_add1)
  then show ?thesis by (simp only: digits_value_Cons)
qed

lemma digit_run_digits: "list_all is_digit (digit_run t)"
  by (simp add: digit_run_def list_all_iff) (meson set_takeWhileD)

text \<open>What \<open>parseInt\<close> returns.\<close>

lemma parseInt_digit_run:
  "parseInt t =
     (if digit_run t = [] then NaN
      else to_Number (sign_of (dropWhile is_white_space t)) (digits_value (digit_run t)))"
  by (simp add: parseInt_def digit_run_def Let_def)

lemma to_Number_cases:
  "to_Number sg n \<noteq> NaN \<and> (\<forall>s. to_Number sg n \<noteq> Str s) \<and>
   (is_integer (to_Number sg n) \<longleftrightarrow> n < 2 ^ 1024 - 2 ^ 970) \<and>
   (to_Number sg n = Infinity \<or> to_Number sg n = NegInfinity \<longleftrightarrow> 2 ^ 1024 - 2 ^ 970 \<le> n)"
  by (simp add: to_Number_def)

lemma parseInt_NaN_iff: "parseInt t = NaN \<longleftrightarrow> digit_run t = []"
  using to_Number_cases by (simp add: parseInt_digit_run)

lemma is_integer_parseInt:
  "is_integer (parseInt t) \<longleftrightarrow>
     digit_run t \<noteq> [] \<and> digits_value (digit_run t) < 2 ^ 1024 - 2 ^ 970"
  using to_Number_cases by (simp add: parseInt_digit_run)

lemma parseInt_infinite_iff:
  "parseInt t = Infinity \<or> parseInt t = NegInfinity \<longleftrightarrow>
     digit_run t \<noteq> [] \<and> 2 ^ 1024 - 2 ^ 970 \<le> digits_value (digit_run t)"
  using to_Number_cases by (simp add: parseInt_digit_run)

lemma parseInt_integer_upto_308_digits:
  assumes "digit_run t \<noteq> []" and "length (digit_run t) \<le> 308"
  shows "is_integer (parseInt t)"
proof -
  have "digits_value (digit_run t) < 10 ^ length (digit_run t)"
    using digit_run_digits by (rule digits_value_less)
  also have "(10::nat) ^ length (digit_run t) \<le> 10 ^ 308"
    using assms(2) by (intro power_increasing) simp_all
  also have "(10::nat) ^ 308 < 2 ^ 1024 - 2 ^ 970" by simp
  finally show ?thesis using assms(1) by (simp add: is_integer_parseInt)
qed

lemma parseInt_infinite_from_310_digits:
  assumes "digit_run t = c # z" and "c \<noteq> CHR ''0''" and "309 \<le> length z"
  shows "parseInt t = Infinity \<or> parseInt t = NegInfinity"
proof -
  have "is_digit c"
    using digit_run_digits [of t] assms(1) by simp
  have "(2::nat) ^ 1024 - 2 ^ 970 \<le> 10 ^ 309" by simp
  also have "(10::nat) ^ 309 \<le> 10 ^ length z"
    using assms(3) by (intro power_increasing) simp_all
  also have "\<dots> \<le> digits_value (c # z)"
    using \<open>is_digit c\<close> assms(2) by (rule digits_value_ge)
  finally show ?thesis using assms(1) by (simp add: parseInt_infinite_iff)
qed

text \<open>
  Rounding at work, on the two integers next to \<open>2^53 + 2\<close>: a tie goes to the even
  significand.
\<close>

lemma round_example_even: "parseInt ''9007199254740993'' = Num 9007199254740992"
  by (simp add: parseInt_def Let_def is_white_space_def is_digit_def drop_sign_def sign_of_def
      digits_value_def to_Number_def round_binary64_def bitlen.simps)

lemma round_example_up: "parseInt ''9007199254740995'' = Num 9007199254740996"
  by (simp add: parseInt_def Let_def is_white_space_def is_digit_def drop_sign_def sign_of_def
      digits_value_def to_Number_def round_binary64_def bitlen.simps)


section \<open>Marker Form: tags\<close>

text \<open>
  C10. For every selection and every fruit \<open>f\<close> that is not in it, \<open>removerFruta f\<close> after
  \<open>adicionarFruta f\<close> gives the selection back. The other cells keep their values, except
  the search text, which \<open>adicionarFruta\<close> clears.
\<close>

theorem adicionar_remover_roundtrip:
  "f \<notin> set (selecionadas st) \<Longrightarrow>
     selecionadas (removerFruta f (adicionarFruta f st)) = selecionadas st \<and>
     removerFruta f (adicionarFruta f st) = st\<lparr>busca := []\<rparr>"
proof -
  assume fresh: "f \<notin> set (selecionadas st)"
  then have keep: "filter (\<lambda>x. x \<noteq> f) (selecionadas st) = selecionadas st"
    by (induction "selecionadas st") (auto simp: filter_id_conv)
  show ?thesis
    by (simp add: removerFruta_def adicionarFruta_def keep)
qed

theorem adicionar_remover_roundtrip_witness:
  "''Uva'' \<notin> set (selecionadas (sample_form ''uv'' [''Banana'', ''Kiwi''])) \<and>
   selecionadas (removerFruta ''Uva'' (adicionarFruta ''Uva'' (sample_form ''uv'' [''Banana'', ''Kiwi''])))
     = [''Banana'', ''Kiwi'']"
  using adicionar_remover_roundtrip [of "''Uva''" "sample_form ''uv'' [''Banana'', ''Kiwi'']"]
  by (simp add: sample_form_def)


section \<open>Marker Form: suggestions\<close>

text \<open>
  C7, as stated, with a prefix match: it fails for the search text \<open>an\<close>. The form suggests
  the four fruits whose name contains \<open>an\<close>; no fruit of the vocabulary begins with it.
\<close>

theorem sugestoes_prefix_counterexample:
  "sugestoes (sample_form ''an'' [])
     = [''Banana'', ''Laranja'', ''Manga'', ''Melancia''] \<and>
   filter (\<lambda>f. prefix (toLowerCase ''an'') (toLowerCase f) \<and> f \<notin> set [])
     frutasDisponiveis = []"
  by (simp add: sugestoes_def frutasFiltradas_def frutasDisponiveis_def toLowerCase_def
      js_lower_char_def is_upper_def sample_form_def)

text \<open>
  C7, amended. For every non-empty search text the suggestion list is the vocabulary, in
  its order, restricted to the fruits whose lowercased name contains the lowercased search
  text as a contiguous substring, at any position, and that are not selected yet.
\<close>

theorem sugestoes_substring:
  "busca st \<noteq> [] \<Longrightarrow>
     sugestoes st =
       filter (\<lambda>f. sublist (toLowerCase (busca st)) (toLowerCase f) \<and> f \<notin> set (selecionadas st))
         frutasDisponiveis"
  by (simp add: sugestoes_def frutasFiltradas_def includes_str_sublist)

theorem sugestoes_substring_witness:
  "busca (sample_form ''AN'' [''Manga'']) \<noteq> [] \<and>
   sugestoes (sample_form ''AN'' [''Manga'']) = [''Banana'', ''Laranja'', ''Melancia'']"
  using sugestoes_substring [of "sample_form ''AN'' [''Manga'']"]
  by (simp add: frutasDisponiveis_def toLowerCase_def js_lower_char_def is_upper_def
      sublist_code(3) sample_form_def)


section \<open>Map View: delete\<close>

text \<open>
  C9. With no marker selected (\<open>selectedMarkerIndex\<close> is \<open>null\<close>), \<open>handleDelete\<close> of the
  web and of the native component changes nothing but \<open>showForm\<close>, which it sets to false:
  the marker list is the same.
\<close>

theorem handleDelete_no_selection:
  "selectedMarkerIndex s = None \<Longrightarrow>
     handleDelete_web s = s\<lparr>showForm := False\<rparr> \<and> markers (handleDelete_web s) = markers s \<and>
     handleDelete_native s = s\<lparr>showForm := False\<rparr> \<and> markers (handleDelete_native s) = markers s"
  by (simp add: handleDelete_web_def handleDelete_native_def)

theorem handleDelete_no_selection_witness:
  "selectedMarkerIndex (sample_state None) = None \<and>
   markers (handleDelete_web (sample_state None)) = map Marker sample_markers \<and>
   markers (handleDelete_native (sample_state None)) = map Marker sample_markers \<and>
   showForm (handleDelete_web (sample_state None)) = False \<and>
   showForm (handleDelete_native (sample_state None)) = False"
  using handleDelete_no_selection [of "sample_state None"]
  by (simp add: sample_state_def)

text \<open>
  C6, as stated, for every selected index: it fails for an index that is not a position
  of the list. The filter then removes nothing and the length stays. (Such an index is
  left selected when an imported file replaces the list while the form is open.)
\<close>

theorem handleDelete_out_of_range_counterexample:
  "length (markers (sample_state (Some 3))) = 3 \<and>
   length (markers (handleDelete_web (sample_state (Some 3)))) = 3 \<and>
   length (markers (handleDelete_native (sample_state (Some 3)))) = 3"
  by (simp add: handleDelete_web_def handleDelete_native_def filter_indexed_def
      sample_state_def sample_markers_def)

text \<open>
  C6, amended. For every marker list \<open>ms\<close> in the store and every selected index \<open>i\<close>,
  \<open>handleDelete\<close> of the web and of the native component leaves the markers before
  position \<open>i\<close> followed by those after it, in their order. When \<open>i\<close> is a position of the
  list the length decreases by one; otherwise the list is unchanged.
\<close>

theorem handleDelete_removes_index:
  "markers s = map Marker ms \<Longrightarrow> selectedMarkerIndex s = Some i \<Longrightarrow>
     markers (handleDelete_web s) = map Marker (take i ms @ drop (Suc i) ms) \<and>
     markers (handleDelete_native s) = map Marker (take i ms @ drop (Suc i) ms) \<and>
     (if i < length ms
      then Suc (length (markers (handleDelete_web s))) = length ms \<and>
           Suc (length (markers (handleDelete_native s))) = length ms
      else markers (handleDelete_web s) = markers s \<and> markers (handleDelete_native s) = markers s)"
  by (auto simp add: handleDelete_web_def handleDelete_native_def filter_indexed_remove_dense)

theorem handleDelete_removes_index_witness:
  "markers (sample_state (Some 1)) = map Marker sample_markers \<and>
   selectedMarkerIndex (sample_state (Some 1)) = Some 1 \<and>
   markers (handleDelete_web (sample_state (Some 1)))
     = [Marker (sample_markers ! 0), Marker (sample_markers ! 2)] \<and>
   markers (handleDelete_native (sample_state (Some 1)))
     = [Marker (sample_markers ! 0), Marker (sample_markers ! 2)]"
  using handleDelete_removes_index [of "sample_state (Some 1)" sample_markers 1]
  by (simp add: sample_state_def sample_markers_def)

text \<open>On an array with holes the delete also drops the holes.\<close>

lemma handleDelete_drops_holes:
  "selectedMarkerIndex s = Some i \<Longrightarrow>
     markers (handleDelete_web s)
       = filter (\<lambda>x. x \<noteq> Hole) (take i (markers s) @ drop (Suc i) (markers s)) \<and>
     markers (handleDelete_native s)
       = filter (\<lambda>x. x \<noteq> Hole) (take i (markers s) @ drop (Suc i) (markers s))"
  by (simp add: handleDelete_web_def handleDelete_native_def filter_indexed_remove)

text \<open>
  An index that is no position of the list is selected when a file arrives while the form
  is open on the last marker: the delete that follows leaves the imported list as it is.
\<close>

lemma stale_index_after_import:
  "run Web [ImportCSV sample_markers, MarkerPress 2, ImportCSV [sample_markers ! 0]] initial_app =
     Inr \<lparr>mapc = \<lparr>markers = [Marker (sample_markers ! 0)], showForm = True,
                  markerType = ''mercado'', newMarkerCoords = Some \<lparr>lat = 5, lng = 6\<rparr>,
                  selectedMarkerIndex = Some 2, frutas = Some []\<rparr>,
          form = \<lparr>quantidade = [], tipo = ''mercado'', busca = [], selecionadas = []\<rparr>\<rparr> \<and>
   run Web [ImportCSV sample_markers, MarkerPress 2, ImportCSV [sample_markers ! 0], PressExcluir]
     initial_app =
     Inr \<lparr>mapc = \<lparr>markers = [Marker (sample_markers ! 0)], showForm = False,
                  markerType = ''mercado'', newMarkerCoords = Some \<lparr>lat = 5, lng = 6\<rparr>,
                  selectedMarkerIndex = None, frutas = Some []\<rparr>,
          form = \<lparr>quantidade = [], tipo = ''mercado'', busca = [], selecionadas = []\<rparr>\<rparr>"
  by (simp add: step_def render_def initial_app_def open_form_def mount_form_def
      sample_markers_def handleDelete_web_def onClose_web_def filter_indexed_def)


section \<open>Map View: save\<close>

text \<open>
  On a marker list the web save replaces the marker at an in-bounds index and leaves the
  rest. At a stale index past the end it appends, with holes before the saved marker when
  the index is beyond the length. The native save with an index selected changes no slot.
\<close>

lemma handleSave_web_updates:
  assumes "markers s = map Marker ms" and "selectedMarkerIndex s = Some i" and "i < length ms"
  shows "markers (handleSave_web d s) = map Marker (ms[i := saved_marker d]) \<and>
         markers (handleSave_web d s) ! i = Marker (saved_marker d) \<and>
         length (markers (handleSave_web d s)) = length ms \<and>
         (\<forall>j. j \<noteq> i \<longrightarrow> markers (handleSave_web d s) ! j = markers s ! j)"
  using assms
  by (simp add: handleSave_web_def array_assign_def spread_dense map_update)

lemma handleSave_web_past_the_end:
  assumes "markers s = map Marker ms" and "selectedMarkerIndex s = Some i" and "length ms \<le> i"
  shows "markers (handleSave_web d s)
           = map Marker ms @ replicate (i - length ms) Hole @ [Marker (saved_marker d)]"
  using assms
  by (simp add: handleSave_web_def array_assign_def spread_dense)

lemma handleSave_native_discards:
  assumes "selectedMarkerIndex s = Some i"
  shows "markers (handleSave_native d s) = markers s"
  using assms by (simp add: handleSave_native_def)

text \<open>
  C1: a save with index \<open>i\<close> selected replaces the marker at \<open>i\<close> by the saved one and
  leaves the rest of the list, on both platforms. Evaluated at the second of three markers:
  the web component replaces the marker (as it does at every in-bounds index, see above);
  the native component returns the list as it was, and the saved marker is not in it.
\<close>

theorem handleSave_native_loses_update:
  "handleSave_native sample_data (sample_state (Some 1)) =
     (sample_state (Some 1))\<lparr>selectedMarkerIndex := None, showForm := False\<rparr> \<and>
   handleSave_web sample_data (sample_state (Some 1)) =
     (sample_state (Some 1))
        \<lparr>markers := (map Marker sample_markers)[1 := Marker (saved_marker sample_data)],
         selectedMarkerIndex := None, showForm := False\<rparr> \<and>
   sample_markers ! 1 \<noteq> saved_marker sample_data"
  by (simp add: handleSave_native_def handleSave_web_def array_assign_def spread_def
      sample_state_def sample_markers_def sample_data_def saved_marker_def)

text \<open>A marker that a save puts into the array is the one built from the form's data.\<close>

lemma new_marker_of_handleSave:
  assumes "Marker m \<in> set (markers (handleSave p d s))" and "Marker m \<notin> set (markers s)"
  shows "m = saved_marker d"
proof -
  from assms(2) have ns: "Marker m \<notin> set (spread (markers s))"
    by (simp add: Marker_in_spread)
  have app: "Marker m \<in> set (spread (markers s) @ [Marker (saved_marker d)]) \<Longrightarrow> ?thesis"
    using ns by auto
  have upd: "Marker m \<in> set (array_assign (spread (markers s)) i (Marker (saved_marker d)))
               \<Longrightarrow> ?thesis" for i
    using ns set_array_assign [of "spread (markers s)" i "Marker (saved_marker d)"] by auto
  show ?thesis
  proof (cases p)
    case Web
    with assms(1) app upd show ?thesis
      by (cases "selectedMarkerIndex s") (simp_all add: handleSave_web_def)
  next
    case Native
    with assms app show ?thesis
      by (cases "selectedMarkerIndex s") (simp_all add: handleSave_native_def)
  qed
qed

text \<open>
  C5, as stated, for a form save: it fails when the quantity field is left as it opens,
  empty. A press on the map followed by Salvar stores a marker whose \<open>quantidade\<close> is
  \<open>NaN\<close>.
\<close>

theorem save_without_quantidade_counterexample:
  "run Web [MapPress \<lparr>lat = 1, lng = 2\<rparr>, PressSalvar] initial_app =
     Inr \<lparr>mapc = \<lparr>markers = [Marker \<lparr>m_type = ''mercado'',
                                      m_coords = Some \<lparr>lat = 1::int, lng = 2\<rparr>,
                                      m_frutas = [], m_quantidade = NaN\<rparr>],
                  showForm = False, markerType = ''mercado'',
                  newMarkerCoords = Some \<lparr>lat = 1, lng = 2\<rparr>,
                  selectedMarkerIndex = None, frutas = None\<rparr>,
          form = \<lparr>quantidade = [], tipo = ''mercado'', busca = [], selecionadas = []\<rparr>\<rparr> \<and>
   \<not> is_integer NaN"
  by (simp add: step_def render_def initial_app_def open_form_def mount_form_def salvar_data_def
      handleSave_web_def saved_marker_def onClose_web_def parseInt_def drop_sign_def spread_def)

text \<open>
  C5, amended, for form saves. Every marker that \<open>handleSave\<close>, web or native, puts into
  the store has as \<open>quantidade\<close> the result of \<open>parseInt\<close> on the quantity text of the
  form. It is \<open>NaN\<close> exactly when no decimal digit follows the leading white space and the
  optional sign. It is an integer exactly when there is such a digit and the value of the
  digit run is below \<open>2^1024 - 2^970\<close>; from that value on it is \<open>Infinity\<close> or
  \<open>-Infinity\<close>.
\<close>

theorem handleSave_quantidade:
  "Marker m \<in> set (markers (handleSave p d s)) \<Longrightarrow> Marker m \<notin> set (markers s) \<Longrightarrow>
     m_quantidade m = parseInt (d_quantidade d) \<and>
     (m_quantidade m = NaN \<longleftrightarrow> digit_run (d_quantidade d) = []) \<and>
     (is_integer (m_quantidade m) \<longleftrightarrow>
        digit_run (d_quantidade d) \<noteq> [] \<and>
        digits_value (digit_run (d_quantidade d)) < 2 ^ 1024 - 2 ^ 970) \<and>
     (m_quantidade m = Infinity \<or> m_quantidade m = NegInfinity \<longleftrightarrow>
        digit_run (d_quantidade d) \<noteq> [] \<and>
        2 ^ 1024 - 2 ^ 970 \<le> digits_value (digit_run (d_quantidade d)))"
proof -
  assume "Marker m \<in> set (markers (handleSave p d s))" and "Marker m \<notin> set (markers s)"
  then have "m = saved_marker d" by (rule new_marker_of_handleSave)
  then have q: "m_quantidade m = parseInt (d_quantidade d)"
    by (simp add: saved_marker_def)
  show ?thesis
    unfolding q
    by (simp only: parseInt_NaN_iff is_integer_parseInt parseInt_infinite_iff simp_thms)
qed

theorem handleSave_quantidade_witness:
  "Marker (saved_marker sample_data)
     \<in> set (markers (handleSave Web sample_data (sample_state (Some 1)))) \<and>
   Marker (saved_marker sample_data) \<notin> set (markers (sample_state (Some 1))) \<and>
   digit_run (d_quantidade sample_data) = ''12'' \<and>
   m_quantidade (saved_marker sample_data) = Num 12 \<and>
   is_integer (m_quantidade (saved_marker sample_data))"
proof -
  have b: "Marker (saved_marker sample_data)
             \<in> set (markers (handleSave Web sample_data (sample_state (Some 1))))"
    by (simp add: handleSave_web_def array_assign_def spread_def sample_state_def
        sample_markers_def)
  have c: "Marker (saved_marker sample_data) \<notin> set (markers (sample_state (Some 1)))"
    by (simp add: sample_state_def sample_markers_def saved_marker_def sample_data_def)
  have r: "digit_run (d_quantidade sample_data) = ''12''"
    by (simp add: sample_data_def digit_run_def is_white_space_def is_digit_def drop_sign_def)
  have d: "parseInt (d_quantidade sample_data) = Num 12"
    by (simp add: sample_data_def parseInt_def Let_def is_white_space_def is_digit_def
        drop_sign_def sign_of_def digits_value_def to_Number_def round_binary64_def)
  from handleSave_quantidade [OF b c] b c r d show ?thesis
    by simp
qed


section \<open>CSV Importer: rows\<close>

lemma toLowerCase_Nil_iff: "toLowerCase s = [] \<longleftrightarrow> s = []"
  by (simp add: toLowerCase_def)

lemma row_to_marker_throws_iff:
  "row_to_marker pf r = Inl e \<longleftrightarrow> e = TypeError \<and> r ''quantidade'' = None"
  by (auto simp add: row_to_marker_def Let_def split: option.splits)

lemma map_rows_Inr:
  "(\<forall>x \<in> set xs. \<exists>y. f x = Inr y) \<Longrightarrow> \<exists>ys. map_rows f xs = Inr ys \<and> length ys = length xs"
proof (induction xs)
  case Nil
  then show ?case by simp
next
  case (Cons x xs)
  from Cons.prems obtain y where y: "f x = Inr y" by auto
  from Cons.prems have "\<forall>x \<in> set xs. \<exists>y. f x = Inr y" by simp
  from Cons.IH [OF this] obtain ys where "map_rows f xs = Inr ys" "length ys = length xs"
    by blast
  with y show ?case by simp
qed

lemma map_rows_Inl:
  "map_rows f xs = Inl e \<Longrightarrow> \<exists>x \<in> set xs. f x = Inl e"
proof (induction xs)
  case Nil
  then show ?case by simp
next
  case (Cons x xs)
  show ?case
  proof (cases "f x")
    case (Inl e')
    with Cons.prems show ?thesis by simp
  next
    case (Inr y)
    with Cons.prems have "map_rows f xs = Inl e"
      by (cases "map_rows f xs") simp_all
    from Cons.IH [OF this] show ?thesis by auto
  qed
qed

lemma map_rows_throws:
  "x \<in> set xs \<Longrightarrow> f x = Inl e \<Longrightarrow> \<exists>e'. map_rows f xs = Inl e'"
proof (induction xs)
  case Nil
  then show ?case by simp
next
  case (Cons a xs)
  show ?case
  proof (cases "f a")
    case (Inl e')
    then show ?thesis by simp
  next
    case (Inr y)
    with Cons.prems have "x \<in> set xs" by auto
    from Cons.IH [OF this Cons.prems(2)] obtain e' where "map_rows f xs = Inl e'" by blast
    with Inr show ?thesis by simp
  qed
qed

text \<open>The import goes through exactly when every row has a \<open>quantidade\<close> cell.\<close>

lemma complete_total_with_quantidade:
  assumes "\<forall>r \<in> set rows. r ''quantidade'' \<noteq> None"
  shows "\<exists>ms. complete pf rows = Inr ms \<and> length ms = length rows"
proof -
  have "\<forall>r \<in> set rows. \<exists>m. row_to_marker pf r = Inr m"
  proof
    fix r assume "r \<in> set rows"
    with assms have "r ''quantidade'' \<noteq> None" by blast
    then have "\<not> (\<exists>e. row_to_marker pf r = Inl e)"
      by (simp add: row_to_marker_throws_iff)
    then show "\<exists>m. row_to_marker pf r = Inr m"
      by (cases "row_to_marker pf r") auto
  qed
  then show ?thesis
    unfolding complete_def by (rule map_rows_Inr)
qed

lemma complete_throws_without_quantidade:
  assumes "r \<in> set rows" and "r ''quantidade'' = None"
  shows "complete pf rows = Inl TypeError"
proof -
  from assms(2) have "row_to_marker pf r = Inl TypeError"
    by (simp add: row_to_marker_throws_iff)
  from map_rows_throws [of r rows "row_to_marker pf" TypeError, OF assms(1) this]
  obtain e where e: "map_rows (row_to_marker pf) rows = Inl e" ..
  from map_rows_Inl [of "row_to_marker pf" rows e, OF e]
  obtain x where "row_to_marker pf x = Inl e" ..
  then have "e = TypeError" by (simp add: row_to_marker_throws_iff)
  with e show ?thesis by (simp add: complete_def)
qed

text \<open>
  C2: the row mapper yields a marker for every row, so that a malformed row does not keep
  the others from being imported. Evaluated at a file of three rows whose second row has
  no \<open>quantidade\<close> cell: reading \<open>row.quantidade.trim()\<close> throws a \<open>TypeError\<close> on that
  row, the callback ends there, and the two well-formed rows are not imported either.
\<close>

theorem complete_short_row_blocks_import:
  "complete pf [sample_row ''mercado'', short_row, sample_row ''produtor''] = Inl TypeError \<and>
   row_to_marker pf short_row = Inl TypeError \<and>
   row_to_marker pf (sample_row ''mercado'') =
     Inr \<lparr>m_type = ''mercado'',
          m_coords = Some \<lparr>lat = pf (Some ''-25.4''), lng = pf (Some ''-49.2'')\<rparr>,
          m_frutas = [''Uva'', ''Kiwi''], m_quantidade = Str ''20''\<rparr>"
  by (simp add: complete_def row_to_marker_def short_row_def sample_row_def Let_def
      toLowerCase_def js_lower_char_def is_upper_def trim_def is_white_space_def)

text \<open>
  C3, as stated, for an unknown tag: it fails for the tipo \<open>Fabrica\<close>, which is kept, trimmed
  and lowercased, as the type of the marker.
\<close>

theorem row_to_marker_unknown_tipo_counterexample:
  "row_to_marker sample_parseFloat (sample_row '' Fabrica'') =
     Inr \<lparr>m_type = ''fabrica'', m_coords = Some \<lparr>lat = 0, lng = 0\<rparr>,
          m_frutas = [''Uva'', ''Kiwi''], m_quantidade = Str ''20''\<rparr> \<and>
   ''fabrica'' \<noteq> ''mercado''"
  by (simp add: row_to_marker_def sample_row_def Let_def sample_parseFloat_def
      toLowerCase_def js_lower_char_def is_upper_def trim_def is_white_space_def)

text \<open>
  C3, amended. For every row the mapper turns into a marker: when \<open>tipo\<close> is missing, or
  empty once trimmed, the type is \<open>mercado\<close>; any other tipo, one of the two tags or not, is
  kept as the type, trimmed and lowercased.
\<close>

theorem row_to_marker_type:
  "row_to_marker pf r = Inr m \<Longrightarrow>
     (r ''tipo'' = None \<longrightarrow> m_type m = ''mercado'') \<and>
     (\<forall>t. r ''tipo'' = Some t \<longrightarrow>
        m_type m = (if trim t = [] then ''mercado'' else toLowerCase (trim t)))"
  by (auto simp add: row_to_marker_def Let_def toLowerCase_Nil_iff split: option.splits)

theorem row_to_marker_type_witness:
  "row_to_marker sample_parseFloat (sample_row ''  '') =
     Inr \<lparr>m_type = ''mercado'', m_coords = Some \<lparr>lat = 0, lng = 0\<rparr>,
          m_frutas = [''Uva'', ''Kiwi''], m_quantidade = Str ''20''\<rparr> \<and>
   sample_row ''  '' ''tipo'' = Some ''  '' \<and> trim ''  '' = [] \<and>
   m_type \<lparr>m_type = ''mercado'', m_coords = Some \<lparr>lat = 0::int, lng = 0\<rparr>,
          m_frutas = [''Uva'', ''Kiwi''], m_quantidade = Str ''20''\<rparr> = ''mercado''"
proof -
  have r: "row_to_marker sample_parseFloat (sample_row ''  '') =
     Inr \<lparr>m_type = ''mercado'', m_coords = Some \<lparr>lat = 0, lng = 0\<rparr>,
          m_frutas = [''Uva'', ''Kiwi''], m_quantidade = Str ''20''\<rparr>"
    by (simp add: row_to_marker_def sample_row_def Let_def sample_parseFloat_def
      toLowerCase_def js_lower_char_def is_upper_def trim_def is_white_space_def)
  have t: "sample_row ''  '' ''tipo'' = Some ''  ''" by (simp add: sample_row_def)
  have e: "trim ''  '' = []" by (simp add: trim_def is_white_space_def)
  from row_to_marker_type [OF r] t e r show ?thesis by simp
qed


section \<open>Submission Client\<close>

text \<open>
  C8. For every marker list, \<open>submit\<close> adds exactly one request to those issued: a
  \<open>POST\<close> to \<open>/find-optimal-location/\<close> under the server's address, with the JSON content
  type and \<open>JSON.stringify\<close> of the list as its body. It returns what the server answers
  to that request, as it is.
\<close>

theorem submit_posts_marker_list:
  "submit server stringify ms net =
     (server net
        \<lparr>url = ''http://127.0.0.1:8000/find-optimal-location/'', req_method = ''POST'',
         headers = [(''Content-Type'', ''application/json'')], body = stringify ms\<rparr>,
      net @ [\<lparr>url = ''http://127.0.0.1:8000/find-optimal-location/'', req_method = ''POST'',
              headers = [(''Content-Type'', ''application/json'')], body = stringify ms\<rparr>])"
  by (simp add: submit_def fetch_def linkServer_def)


section \<open>Marker Store: the types of the markers\<close>

lemma store_ok_Marker: "list_all slot_ok (map Marker ms) \<longleftrightarrow> store_ok ms"
  by (simp add: store_ok_def list_all_iff)

lemma slots_ok_iff:
  "list_all slot_ok xs \<longleftrightarrow> (\<forall>m. Marker m \<in> set xs \<longrightarrow> valid_type (m_type m))"
proof -
  have "slot_ok x \<longleftrightarrow> (\<forall>m. x = Marker m \<longrightarrow> valid_type (m_type m))" for x :: "'a slot"
    by (cases x) simp_all
  then show ?thesis by (auto simp add: list_all_iff)
qed

lemma slots_ok_spread: "list_all slot_ok xs \<Longrightarrow> list_all slot_ok (spread xs)"
  by (induction xs) (auto simp add: spread_def split: slot.splits)

lemma slots_ok_assign:
  "list_all slot_ok xs \<Longrightarrow> slot_ok v \<Longrightarrow> list_all slot_ok (array_assign xs i v)"
proof -
  assume xs: "list_all slot_ok xs" and v: "slot_ok v"
  have "\<forall>x \<in> insert v (insert Hole (set xs)). slot_ok x"
    using xs v by (simp add: list_all_iff)
  moreover have "set (array_assign xs i v) \<subseteq> insert v (insert Hole (set xs))"
    using set_update_subset_insert [of xs i v] by (auto simp add: array_assign_def)
  ultimately show ?thesis
    unfolding list_all_iff by blast
qed

lemma slots_ok_remove:
  "list_all slot_ok xs \<Longrightarrow> list_all slot_ok (filter_indexed (\<lambda>_ j. j \<noteq> i) xs)"
proof -
  assume xs: "list_all slot_ok xs"
  have "set (filter_indexed (\<lambda>_ j. j \<noteq> i) xs) \<subseteq> set xs"
    by (auto simp add: filter_indexed_def dest: set_zip_leftD)
  with xs show ?thesis
    unfolding list_all_iff by blast
qed

lemma handleSave_ok:
  assumes "list_all slot_ok (markers s)" and "valid_type (d_tipo d)"
  shows "list_all slot_ok (markers (handleSave p d s)) \<and>
         markerType (handleSave p d s) = markerType s"
proof -
  have v: "slot_ok (Marker (saved_marker d))"
    using assms(2) by (simp add: saved_marker_def)
  have sp: "list_all slot_ok (spread (markers s))"
    using assms(1) by (rule slots_ok_spread)
  have upd: "list_all slot_ok (array_assign (spread (markers s)) i (Marker (saved_marker d)))"
    for i
    using sp v by (rule slots_ok_assign)
  have app: "list_all slot_ok (spread (markers s) @ [Marker (saved_marker d)])"
    using sp v by simp
  show ?thesis
  proof (cases p)
    case Web
    with assms(1) upd app show ?thesis
      by (cases "selectedMarkerIndex s") (simp_all add: handleSave_web_def)
  next
    case Native
    with assms(1) app show ?thesis
      by (cases "selectedMarkerIndex s") (simp_all add: handleSave_native_def)
  qed
qed

lemma handleDelete_ok:
  assumes "list_all slot_ok (markers s)"
  shows "list_all slot_ok (markers (handleDelete p s)) \<and>
         markerType (handleDelete p s) = markerType s"
proof -
  have "list_all slot_ok (filter_indexed (\<lambda>_ j. j \<noteq> i) (markers s))" for i
    using assms by (rule slots_ok_remove)
  with assms show ?thesis
    by (cases p; cases "selectedMarkerIndex s")
       (simp_all add: handleDelete_web_def handleDelete_native_def)
qed

lemma onClose_frame: "markers (onClose p s) = markers s \<and> markerType (onClose p s) = markerType s"
  by (cases p) (simp_all add: onClose_web_def onClose_native_def)

text \<open>Every event keeps the two tags in the store, in the map's state and in the form.\<close>

lemma on_event_ok:
  assumes "app_ok a" and "typed_event e" and "on_event p e a = Inr a'"
  shows "app_ok a'"
proof (cases e)
  case (MapPress c)
  with assms show ?thesis
    by (auto simp add: app_ok_def open_form_def mount_form_def valid_type_def
        split: if_splits platform.splits)
next
  case (MarkerPress i)
  with assms(3) obtain m where i: "i < length (markers (mapc a))"
    and m: "markers (mapc a) ! i = Marker m"
    and a': "a' = open_form ((mapc a)\<lparr>selectedMarkerIndex := Some i,
                       newMarkerCoords := m_coords m, frutas := Some (m_frutas m),
                       markerType := m_type m\<rparr>)"
    by (auto split: if_splits slot.splits)
  from i m have "Marker m \<in> set (markers (mapc a))" by (metis nth_mem)
  with assms(1) have "valid_type (m_type m)" by (simp add: app_ok_def slots_ok_iff)
  with assms(1) show ?thesis
    by (simp add: a' app_ok_def open_form_def mount_form_def)
next
  case PressMercado
  with assms show ?thesis by (auto simp add: app_ok_def valid_type_def split: if_splits)
next
  case PressProdutor
  with assms show ?thesis by (auto simp add: app_ok_def valid_type_def split: if_splits)
next
  case (ChangeQuantidade t)
  with assms show ?thesis by (auto simp add: app_ok_def split: if_splits)
next
  case (ChangeBusca t)
  with assms show ?thesis by (auto simp add: app_ok_def split: if_splits)
next
  case (PressSugestao f)
  with assms show ?thesis by (auto simp add: app_ok_def adicionarFruta_def split: if_splits)
next
  case (PressRemover f)
  with assms show ?thesis by (auto simp add: app_ok_def removerFruta_def split: if_splits)
next
  case PressSalvar
  with assms(3) have a': "a' = a\<lparr>mapc := onClose p
        (handleSave p (salvar_data (newMarkerCoords (mapc a)) (form a)) (mapc a))\<rparr>"
    by (auto split: if_splits)
  from assms(1) have "list_all slot_ok (markers (mapc a))"
    and "valid_type (d_tipo (salvar_data (newMarkerCoords (mapc a)) (form a)))"
    by (simp_all add: app_ok_def salvar_data_def)
  from handleSave_ok [OF this, of p] assms(1) show ?thesis
    by (simp add: a' app_ok_def onClose_frame)
next
  case PressCancelar
  with assms show ?thesis by (auto simp add: app_ok_def onClose_frame split: if_splits)
next
  case PressExcluir
  with assms(3) have a': "a' = a\<lparr>mapc := onClose p (handleDelete p (mapc a))\<rparr>"
    by (auto split: if_splits)
  from assms(1) have "list_all slot_ok (markers (mapc a))" by (simp add: app_ok_def)
  from handleDelete_ok [OF this, of p] assms(1) show ?thesis
    by (simp add: a' app_ok_def onClose_frame)
next
  case (ImportCSV ms)
  with assms show ?thesis by (auto simp add: app_ok_def store_ok_Marker)
qed

lemma step_app_ok:
  assumes "app_ok a" and "typed_event e" and "step p e a = Inr a'"
  shows "app_ok a'"
proof -
  from assms(3) obtain b where b: "on_event p e a = Inr b" and r: "render p b = Inr a'"
    by (auto simp add: step_def split: sum.splits)
  from r have "a' = b" by (simp add: render_def split: if_splits)
  with assms(1,2) b show ?thesis by (simp add: on_event_ok)
qed

lemma trace_app_ok:
  "app_ok a \<Longrightarrow> list_all typed_event es \<Longrightarrow> b \<in> set (trace p es a) \<Longrightarrow> app_ok b"
proof (induction es arbitrary: a)
  case Nil
  then show ?case by simp
next
  case (Cons e es)
  show ?case
  proof (cases "b = a")
    case True
    with Cons.prems(1) show ?thesis by simp
  next
    case False
    show ?thesis
    proof (cases "on_event p e a")
      case (Inl x)
      with Cons.prems(3) False show ?thesis by simp
    next
      case (Inr a')
      from Cons.prems(1,2) Inr have ok: "app_ok a'" by (auto intro: on_event_ok)
      show ?thesis
      proof (cases "render p a'")
        case (Inl x)
        with Cons.prems(3) False Inr have "b = a'" by simp
        with ok show ?thesis by simp
      next
        case r: (Inr a'')
        then have "a'' = a'" by (simp add: render_def split: if_splits)
        with Cons.prems(3) False Inr r have t: "b \<in> set (trace p es a')" by simp
        from Cons.IH [OF ok _ t] Cons.prems(2) show ?thesis by simp
      qed
    qed
  qed
qed

lemma run_in_trace: "run p es a = Inr b \<Longrightarrow> b \<in> set (trace p es a)"
proof (induction es arbitrary: a)
  case Nil
  then show ?case by simp
next
  case (Cons e es)
  from Cons.prems obtain a' where s: "step p e a = Inr a'" and r: "run p es a' = Inr b"
    by (auto split: sum.splits)
  from s obtain c where c: "on_event p e a = Inr c" and rc: "render p c = Inr a'"
    by (auto simp add: step_def split: sum.splits)
  from Cons.IH [OF r] c rc show ?case by simp
qed

lemma initial_app_ok: "app_ok initial_app"
  by (simp add: app_ok_def initial_app_def valid_type_def mount_form_def)

text \<open>
  What stops a sequence of events: a press on a control that is not on the screen, or an
  error thrown while rendering.
\<close>

lemma step_stops:
  "step p e a = Inl x \<longleftrightarrow>
     on_event p e a = Inl x \<or>
     (\<exists>b. on_event p e a = Inr b \<and> \<not> list_all (slot_renders p) (markers (mapc b)) \<and> x = TypeError)"
  by (auto simp add: step_def render_def split: sum.splits)

text \<open>
  A save at a stale index beyond the end leaves a hole in the store, and the screen goes
  on. The next save copies the hole as \<open>undefined\<close>, and the render that follows throws.
\<close>

lemma stale_save_leaves_holes:
  "run Web [ImportCSV sample_markers, MarkerPress 2, ImportCSV [sample_markers ! 0], PressSalvar]
     initial_app =
     Inr \<lparr>mapc = \<lparr>markers = [Marker (sample_markers ! 0), Hole,
                             Marker \<lparr>m_type = ''mercado'', m_coords = Some \<lparr>lat = 5, lng = 6\<rparr>,
                                     m_frutas = [], m_quantidade = NaN\<rparr>],
                  showForm = False, markerType = ''mercado'',
                  newMarkerCoords = Some \<lparr>lat = 5, lng = 6\<rparr>,
                  selectedMarkerIndex = None, frutas = Some []\<rparr>,
          form = \<lparr>quantidade = [], tipo = ''mercado'', busca = [], selecionadas = []\<rparr>\<rparr>"
  by (simp add: step_def render_def initial_app_def open_form_def mount_form_def
      sample_markers_def handleSave_web_def onClose_web_def array_assign_def spread_def
      salvar_data_def saved_marker_def parseInt_def drop_sign_def)

lemma render_crash_after_hole:
  "run Web [ImportCSV sample_markers, MarkerPress 2, ImportCSV [sample_markers ! 0], PressSalvar,
            MapPress \<lparr>lat = 7, lng = 8\<rparr>, PressSalvar] initial_app = Inl TypeError"
  by (simp add: step_def render_def initial_app_def open_form_def mount_form_def
      sample_markers_def handleSave_web_def onClose_web_def array_assign_def spread_def
      salvar_data_def saved_marker_def parseInt_def drop_sign_def)

text \<open>
  C4, as stated, for an imported file: it fails for a row whose tipo is \<open>Atacado\<close>. The
  importer maps it to a marker of type \<open>atacado\<close>, and the import puts that marker into
  the store.
\<close>

theorem import_foreign_type_counterexample:
  "complete sample_parseFloat [sample_row ''Atacado''] =
     Inr [\<lparr>m_type = ''atacado'', m_coords = Some \<lparr>lat = 0, lng = 0\<rparr>,
           m_frutas = [''Uva'', ''Kiwi''], m_quantidade = Str ''20''\<rparr>] \<and>
   step Web
     (ImportCSV [\<lparr>m_type = ''atacado'', m_coords = Some \<lparr>lat = 0::int, lng = 0\<rparr>,
                  m_frutas = [''Uva'', ''Kiwi''], m_quantidade = Str ''20''\<rparr>]) initial_app =
     Inr (initial_app\<lparr>mapc := (mapc initial_app)
            \<lparr>markers := [Marker \<lparr>m_type = ''atacado'', m_coords = Some \<lparr>lat = 0, lng = 0\<rparr>,
                                 m_frutas = [''Uva'', ''Kiwi''], m_quantidade = Str ''20''\<rparr>]\<rparr>\<rparr>) \<and>
   \<not> valid_type ''atacado''"
  by (simp add: step_def render_def complete_def row_to_marker_def sample_row_def Let_def
      sample_parseFloat_def toLowerCase_def js_lower_char_def is_upper_def trim_def
      is_white_space_def valid_type_def)

text \<open>
  C4, amended. Starting from the empty store, in every state that a sequence of events of
  the map, of the form and of imports goes through, on either platform, every marker in
  the store has type \<open>mercado\<close> or \<open>produtor\<close>, provided every imported file of the
  sequence carried only markers of these two types.
\<close>

theorem store_types_kept:
  "list_all typed_event es \<Longrightarrow> b \<in> set (trace p es initial_app) \<Longrightarrow>
     Marker m \<in> set (markers (mapc b)) \<Longrightarrow>
     m_type m = ''mercado'' \<or> m_type m = ''produtor''"
proof -
  assume "list_all typed_event es" and "b \<in> set (trace p es initial_app)"
  with initial_app_ok have "app_ok b" by (rule trace_app_ok)
  moreover assume "Marker m \<in> set (markers (mapc b))"
  ultimately show ?thesis by (simp add: app_ok_def slots_ok_iff valid_type_def)
qed

theorem store_types_kept_witness:
  "list_all typed_event
     [ImportCSV sample_markers, MarkerPress 2, ImportCSV [sample_markers ! 0], PressProdutor,
      ChangeQuantidade ''40'', ChangeBusca ''ki'', PressSugestao ''Kiwi'', PressSalvar] \<and>
   run Web
     [ImportCSV sample_markers, MarkerPress 2, ImportCSV [sample_markers ! 0], PressProdutor,
      ChangeQuantidade ''40'', ChangeBusca ''ki'', PressSugestao ''Kiwi'', PressSalvar]
     initial_app =
     Inr \<lparr>mapc = \<lparr>markers = [Marker (sample_markers ! 0), Hole,
                             Marker \<lparr>m_type = ''produtor'', m_coords = Some \<lparr>lat = 5, lng = 6\<rparr>,
                                     m_frutas = [''Kiwi''], m_quantidade = Num 40\<rparr>],
                  showForm = False, markerType = ''mercado'',
                  newMarkerCoords = Some \<lparr>lat = 5, lng = 6\<rparr>,
                  selectedMarkerIndex = None, frutas = Some []\<rparr>,
          form = \<lparr>quantidade = ''40'', tipo = ''produtor'', busca = [], selecionadas = [''Kiwi'']\<rparr>\<rparr> \<and>
   m_type \<lparr>m_type = ''produtor'', m_coords = Some \<lparr>lat = 5::int, lng = 6\<rparr>,
           m_frutas = [''Kiwi''], m_quantidade = Num 40\<rparr> = ''produtor''"
proof -
  let ?es = "[ImportCSV sample_markers, MarkerPress 2, ImportCSV [sample_markers ! 0],
      PressProdutor, ChangeQuantidade ''40'', ChangeBusca ''ki'', PressSugestao ''Kiwi'',
      PressSalvar]"
  let ?m = "\<lparr>m_type = ''produtor'', m_coords = Some \<lparr>lat = 5::int, lng = 6\<rparr>,
           m_frutas = [''Kiwi''], m_quantidade = Num 40\<rparr>"
  let ?b = "\<lparr>mapc = \<lparr>markers = [Marker (sample_markers ! 0), Hole, Marker ?m],
                  showForm = False, markerType = ''mercado'',
                  newMarkerCoords = Some \<lparr>lat = 5, lng = 6\<rparr>,
                  selectedMarkerIndex = None, frutas = Some []\<rparr>,
          form = \<lparr>quantidade = ''40'', tipo = ''produtor'', busca = [], selecionadas = [''Kiwi'']\<rparr>\<rparr>"
  have e: "list_all typed_event ?es"
    by (simp add: store_ok_def valid_type_def sample_markers_def)
  have r: "run Web ?es initial_app = Inr ?b"
    by (simp add: step_def render_def initial_app_def open_form_def mount_form_def
      sample_markers_def handleSave_web_def onClose_web_def array_assign_def spread_def
      salvar_data_def saved_marker_def parseInt_def drop_sign_def
      sugestoes_def frutasFiltradas_def frutasDisponiveis_def toLowerCase_def js_lower_char_def
      is_upper_def adicionarFruta_def Let_def is_white_space_def is_digit_def
      sign_of_def digits_value_def to_Number_def round_binary64_def)
  from r have t: "?b \<in> set (trace Web ?es initial_app)" by (rule run_in_trace)
  have m: "Marker ?m \<in> set (markers (mapc ?b))" by simp
  from store_types_kept [OF e t m] e r show ?thesis by simp
qed

end
